theory Spec2Isabelle
  imports Main "HOL-Library.Sublist"
begin

section \<open>Go strings as byte sequences\<close>

text \<open>
  A Go \<^verbatim>\<open>string\<close> is a sequence of bytes and \<^verbatim>\<open>len\<close> counts bytes, so a Go string is
  modelled as a \<^typ>\<open>string\<close> (a list of 8-bit characters).  The functions of package
  \<^verbatim>\<open>strings\<close> that the repository calls are modelled on bytes.
\<close>

definition isASCII :: "string \<Rightarrow> bool" where
  \<comment> \<open>every byte is below \<^verbatim>\<open>utf8.RuneSelf\<close>\<close>
  "isASCII s = list_all (\<lambda>c. (of_char c :: nat) < 128) s"

definition ascii_upper :: "char \<Rightarrow> char" where
  \<comment> \<open>\<^verbatim>\<open>c -= 'a' - 'A'\<close> on a lower-case ASCII letter: the bit of value 32 is cleared\<close>
  "ascii_upper c =
     (if 97 \<le> (of_char c :: nat) \<and> (of_char c :: nat) \<le> 122
      then (case c of Char b0 b1 b2 b3 b4 b5 b6 b7 \<Rightarrow> Char b0 b1 b2 b3 b4 False b6 b7)
      else c)"

definition ascii_lower :: "char \<Rightarrow> char" where
  \<comment> \<open>\<^verbatim>\<open>c += 'a' - 'A'\<close> on an upper-case ASCII letter: the bit of value 32 is set\<close>
  "ascii_lower c =
     (if 65 \<le> (of_char c :: nat) \<and> (of_char c :: nat) \<le> 90
      then (case c of Char b0 b1 b2 b3 b4 b5 b6 b7 \<Rightarrow> Char b0 b1 b2 b3 b4 True b6 b7)
      else c)"

fun Contains :: "string \<Rightarrow> string \<Rightarrow> bool" where
  \<comment> \<open>\<^verbatim>\<open>strings.Contains(s, substr)\<close>: \<^verbatim>\<open>substr\<close> occurs in \<^verbatim>\<open>s\<close> as a run of bytes\<close>
  "Contains [] substr = (substr = [])"
| "Contains (c # cs) substr = (prefix substr (c # cs) \<or> Contains cs substr)"

definition TrimRight :: "string \<Rightarrow> string \<Rightarrow> string" where
  \<comment> \<open>\<^verbatim>\<open>strings.TrimRight(s, cutset)\<close> for an ASCII \<^verbatim>\<open>cutset\<close>\<close>
  "TrimRight s cutset = rev (dropWhile (\<lambda>c. c \<in> set cutset) (rev s))"

definition EqualFold :: "string \<Rightarrow> string \<Rightarrow> bool" where
  \<comment> \<open>\<^verbatim>\<open>strings.EqualFold(s, t)\<close> for an ASCII \<^verbatim>\<open>t\<close> without the letters k and s, the
      only ASCII letters that fold to runes outside ASCII; the repository's \<^verbatim>\<open>t\<close> is
      \<^verbatim>\<open>"true"\<close>\<close>
  "EqualFold s t = (map ascii_lower s = map ascii_lower t)"

subsection \<open>White space\<close>

text \<open>
  \<^verbatim>\<open>strings.TrimSpace\<close> and \<^verbatim>\<open>strings.Fields\<close> remove the runes of \<^verbatim>\<open>unicode.IsSpace\<close>:
  tab, line feed, vertical tab, form feed, carriage return, space, U+0085, U+00A0, U+1680,
  U+2000 to U+200A, U+2028, U+2029, U+202F, U+205F and U+3000.  The list holds their
  UTF-8 encodings.  The first byte of each encoding is an ASCII byte or a leading byte,
  never a continuation byte, so an occurrence of an encoding in a string always decodes
  to that rune, also next to invalid bytes, and matching on bytes is exact.
\<close>

definition space_runes :: "string list" where
  "space_runes =
     [[CHR 0x09], [CHR 0x0A], [CHR 0x0B], [CHR 0x0C], [CHR 0x0D], [CHR 0x20],
      [CHR 0xC2, CHR 0x85], [CHR 0xC2, CHR 0xA0], [CHR 0xE1, CHR 0x9A, CHR 0x80],
      [CHR 0xE2, CHR 0x80, CHR 0x80], [CHR 0xE2, CHR 0x80, CHR 0x81],
      [CHR 0xE2, CHR 0x80, CHR 0x82], [CHR 0xE2, CHR 0x80, CHR 0x83],
      [CHR 0xE2, CHR 0x80, CHR 0x84], [CHR 0xE2, CHR 0x80, CHR 0x85],
      [CHR 0xE2, CHR 0x80, CHR 0x86], [CHR 0xE2, CHR 0x80, CHR 0x87],
      [CHR 0xE2, CHR 0x80, CHR 0x88], [CHR 0xE2, CHR 0x80, CHR 0x89],
      [CHR 0xE2, CHR 0x80, CHR 0x8A], [CHR 0xE2, CHR 0x80, CHR 0xA8],
      [CHR 0xE2, CHR 0x80, CHR 0xA9], [CHR 0xE2, CHR 0x80, CHR 0xAF],
      [CHR 0xE2, CHR 0x81, CHR 0x9F], [CHR 0xE3, CHR 0x80, CHR 0x80]]"

definition rune_width :: "string list \<Rightarrow> string \<Rightarrow> nat" where
  \<comment> \<open>the length of the encoding among \<open>encs\<close> that \<open>s\<close> starts with, 0 when there is none\<close>
  "rune_width encs s = (case find (\<lambda>w. w \<noteq> [] \<and> prefix w s) encs of None \<Rightarrow> 0 | Some w \<Rightarrow> length w)"

lemma rune_width_nonempty: "rune_width encs s \<noteq> 0 \<Longrightarrow> s \<noteq> []"
  by (auto simp: rune_width_def find_Some_iff split: option.splits)

function trim_runes :: "string list \<Rightarrow> string \<Rightarrow> string" where
  "trim_runes encs s = (if rune_width encs s = 0 then s else trim_runes encs (drop (rune_width encs s) s))"
  by pat_completeness auto
termination
proof (relation "measure (\<lambda>(encs, s). length s)")
  fix encs :: "string list" and s :: string
  assume "rune_width encs s \<noteq> 0"
  then have "0 < rune_width encs s" and "0 < length s"
    using rune_width_nonempty [of encs s] by simp_all
  then have "length s - rune_width encs s < length s"
    by arith
  then show "((encs, drop (rune_width encs s) s), (encs, s)) \<in> measure (\<lambda>(encs, s). length s)"
    by simp
qed simp

declare trim_runes.simps [simp del]

definition TrimSpace :: "string \<Rightarrow> string" where
  \<comment> \<open>\<^verbatim>\<open>strings.TrimSpace(s)\<close>: leading, then trailing white-space runes are cut\<close>
  "TrimSpace s = rev (trim_runes (map rev space_runes) (rev (trim_runes space_runes s)))"

function Fields_from :: "string \<Rightarrow> string \<Rightarrow> string list" where
  \<comment> \<open>the loop of \<^verbatim>\<open>strings.Fields\<close>: \<open>cur\<close> is the field being read\<close>
  "Fields_from cur [] = (if cur = [] then [] else [cur])"
| "Fields_from cur (c # cs) =
     (if rune_width space_runes (c # cs) = 0 then Fields_from (cur @ [c]) cs
      else (if cur = [] then [] else [cur]) @ Fields_from [] (drop (rune_width space_runes (c # cs)) (c # cs)))"
  by pat_completeness auto
termination
  by (relation "measure (\<lambda>(cur, s). length s)") auto

definition Fields :: "string \<Rightarrow> string list" where
  "Fields s = Fields_from [] s"

subsection \<open>Case mapping\<close>

text \<open>
  \<^verbatim>\<open>strings.ToUpper\<close> and \<^verbatim>\<open>strings.ToLower\<close> map an ASCII-only string byte by byte and
  hand every other string to \<^verbatim>\<open>strings.Map\<close> with the case tables of package
  \<^verbatim>\<open>unicode\<close>.  Those tables, the URL parser of \<^verbatim>\<open>net/url\<close>, the layout parser of
  \<^verbatim>\<open>time\<close> and the decoder of \<^verbatim>\<open>encoding/json\<close> belong to the Go standard library, not to
  the repository: the model takes them as the fields of a record, and the theorems hold
  for every value of it.
\<close>

record url_URL =
  Scheme :: string
  Host :: string

text \<open>
  \<^verbatim>\<open>GitHubIssue\<close> of package security, with the fields under their JSON names
  (\<^verbatim>\<open>Title\<close> and \<^verbatim>\<open>CreatedAt\<close> are fields of \<^verbatim>\<open>core.Bounty\<close> too).
\<close>

record GitHubIssue =
  title :: string
  html_url :: string
  created_at :: string
  body :: string
  labels :: "string list"

record stdlib =
  unicode_ToUpper :: "string \<Rightarrow> string"
  unicode_ToLower :: "string \<Rightarrow> string"
  url_ParseRequestURI :: "string \<Rightarrow> url_URL option"
  time_Parse_RFC3339 :: "string \<Rightarrow> bool"
  json_Unmarshal :: "string \<Rightarrow> GitHubIssue list option"

definition ToUpper :: "stdlib \<Rightarrow> string \<Rightarrow> string" where
  "ToUpper L s = (if isASCII s then map ascii_upper s else unicode_ToUpper L s)"

definition ToLower :: "stdlib \<Rightarrow> string \<Rightarrow> string" where
  "ToLower L s = (if isASCII s then map ascii_lower s else unicode_ToLower L s)"

definition ReplaceAll :: "string \<Rightarrow> char \<Rightarrow> string \<Rightarrow> string" where
  \<comment> \<open>\<^verbatim>\<open>strings.ReplaceAll(s, old, new)\<close> for a one-byte \<^verbatim>\<open>old\<close>, the only use in the repository\<close>
  "ReplaceAll s old new = concat (map (\<lambda>c. if c = old then new else [c]) s)"

section \<open>Package security: sanitising free text\<close>

definition SanitizeString :: "string \<Rightarrow> string" where
  "SanitizeString input =
     (if input = [] then []
      else
        let sanitized = ReplaceAll input (CHR 0x0A) '' '';
            sanitized = ReplaceAll sanitized (CHR 0x0D) '' '';
            sanitized = ReplaceAll sanitized (CHR 0x09) '' ''
        in if length sanitized > 1000 then take 1000 sanitized @ ''...'' else sanitized)"

section \<open>Package security: the response validator\<close>

subsection \<open>The injection pattern\<close>

text \<open>
  \<^verbatim>\<open>containsScriptTags\<close> matches the regular expression
  \<^verbatim>\<open>(?i)<script[^>]*>|</script>|javascript:|onerror\s*=|onclick\s*=|onload\s*=\<close>
  anywhere in its argument.  Under \<^verbatim>\<open>(?i)\<close> a letter of the pattern matches every rune of
  its simple case-folding orbit: its lower-case and upper-case forms and, for s and k,
  also U+017F (long s) and U+212A (Kelvin sign).  \<^verbatim>\<open>[^>]\<close> matches every rune but
  \<^verbatim>\<open>>\<close>, an invalid byte included, and \<^verbatim>\<open>\s\<close> is one of tab, line feed, form feed,
  carriage return and space.
\<close>

definition fold_encodings :: "char \<Rightarrow> string list" where
  \<comment> \<open>the UTF-8 encodings of the runes that the pattern byte \<open>p\<close> matches under \<^verbatim>\<open>(?i)\<close>\<close>
  "fold_encodings p =
     (if p = CHR ''s'' then [''s'', ''S'', [CHR 0xC5, CHR 0xBF]]
      else if p = CHR ''k'' then [''k'', ''K'', [CHR 0xE2, CHR 0x84, CHR 0xAA]]
      else if ascii_upper p \<noteq> p then [[p], [ascii_upper p]]
      else [[p]])"

fun match_fold :: "string \<Rightarrow> string \<Rightarrow> string option" where
  \<comment> \<open>matches the literal \<open>pat\<close> at the head of the input and returns the rest of the input\<close>
  "match_fold [] s = Some s"
| "match_fold (p # ps) s =
     (case find (\<lambda>e. prefix e s) (fold_encodings p) of
        None \<Rightarrow> None
      | Some e \<Rightarrow> match_fold ps (drop (length e) s))"

definition re_space :: "char \<Rightarrow> bool" where
  "re_space c = (c \<in> {CHR 0x09, CHR 0x0A, CHR 0x0C, CHR 0x0D, CHR 0x20})"

definition match_handler :: "string \<Rightarrow> string \<Rightarrow> bool" where
  \<comment> \<open>\<open>name\<close>, then \<^verbatim>\<open>\s*=\<close>\<close>
  "match_handler name s =
     (case match_fold name s of
        None \<Rightarrow> False
      | Some r \<Rightarrow> (case dropWhile re_space r of [] \<Rightarrow> False | c # _ \<Rightarrow> c = CHR ''=''))"

definition match_here :: "string \<Rightarrow> bool" where
  \<comment> \<open>one of the six alternatives matches at the head of \<open>s\<close>\<close>
  "match_here s =
     ((case match_fold ''<script'' s of None \<Rightarrow> False | Some r \<Rightarrow> CHR ''>'' \<in> set r)
      \<or> match_fold ''</script>'' s \<noteq> None
      \<or> match_fold ''javascript:'' s \<noteq> None
      \<or> match_handler ''onerror'' s
      \<or> match_handler ''onclick'' s
      \<or> match_handler ''onload'' s)"

definition containsScriptTags :: "string \<Rightarrow> bool" where
  "containsScriptTags content = list_ex match_here (suffixes content)"

subsection \<open>White space and the pattern, stated without the matcher\<close>





subsection \<open>Validation of a page\<close>

datatype issue_error =
  TitleEmpty | HTMLURLEmpty | HTMLURLFormat | CreatedAtEmpty | CreatedAtFormat | TitleTooLong | XSSDetected

datatype response_error =
  EmptyBody | InvalidJSON | InvalidItem nat issue_error

definition validateGitHubIssue :: "stdlib \<Rightarrow> GitHubIssue \<Rightarrow> issue_error option" where
  \<comment> \<open>\<open>None\<close> is the \<^verbatim>\<open>nil\<close> error: the issue is accepted\<close>
  "validateGitHubIssue L issue =
     (if TrimSpace (title issue) = [] then Some TitleEmpty
      else if TrimSpace (html_url issue) = [] then Some HTMLURLEmpty
      else if url_ParseRequestURI L (html_url issue) = None then Some HTMLURLFormat
      else if TrimSpace (created_at issue) = [] then Some CreatedAtEmpty
      else if \<not> time_Parse_RFC3339 L (created_at issue) then Some CreatedAtFormat
      else if length (title issue) > 500 then Some TitleTooLong
      else if containsScriptTags (title issue) \<or> containsScriptTags (body issue) then Some XSSDetected
      else None)"

fun validate_items :: "stdlib \<Rightarrow> nat \<Rightarrow> GitHubIssue list \<Rightarrow> response_error option" where
  \<comment> \<open>the loop over \<^verbatim>\<open>response.Items\<close> from index \<open>i\<close>: the first invalid item ends it\<close>
  "validate_items L i [] = None"
| "validate_items L i (item # rest) =
     (case validateGitHubIssue L item of
        Some err \<Rightarrow> Some (InvalidItem i err)
      | None \<Rightarrow> validate_items L (Suc i) rest)"

definition ValidateGitHubResponse :: "stdlib \<Rightarrow> string \<Rightarrow> response_error + GitHubIssue list" where
  \<comment> \<open>\<open>Inr items\<close> is the response with its \<^verbatim>\<open>Items\<close>; \<open>Inl\<close> is \<^verbatim>\<open>(nil, err)\<close>\<close>
  "ValidateGitHubResponse L data =
     (if length data = 0 then Inl EmptyBody
      else case json_Unmarshal L data of
        None \<Rightarrow> Inl InvalidJSON
      | Some items \<Rightarrow>
          (case validate_items L 0 items of
             Some err \<Rightarrow> Inl err
           | None \<Rightarrow> Inr items))"

definition accepted_items :: "response_error + GitHubIssue list \<Rightarrow> GitHubIssue list" where
  \<comment> \<open>the items a caller can read from the result: none when the response is \<^verbatim>\<open>nil\<close>\<close>
  "accepted_items r = (case r of Inl err \<Rightarrow> [] | Inr items \<Rightarrow> items)"

section \<open>Package security: URLs\<close>

definition NormalizeURL :: "string \<Rightarrow> string" where
  "NormalizeURL urlStr =
     (let trimmed = TrimSpace urlStr
      in if trimmed = [] then []
         else
           let trimmed = ReplaceAll trimmed (CHR 0x0A) [];
               trimmed = ReplaceAll trimmed (CHR 0x0D) [];
               trimmed = ReplaceAll trimmed (CHR 0x09) [];
               fields = Fields trimmed;
               trimmed = (if length fields > 0 then hd fields else trimmed)
           in TrimRight trimmed (''.,;!?)'' @ [CHR 0x22] @ [CHR 0x27]))"

definition dangerousDomains :: "string list" where
  "dangerousDomains = [''localhost'', ''127.0.0.1'', ''0.0.0.0'', ''file://'', ''ftp://'', ''javascript:'']"

definition ValidateURL :: "stdlib \<Rightarrow> string \<Rightarrow> string \<Rightarrow> bool" where
  \<comment> \<open>\<open>allow\<close> is the value of the environment variable \<^verbatim>\<open>BOUNTYOS_ALLOW_LOCAL_URLS\<close>\<close>
  "ValidateURL L allow urlStr =
     (if urlStr = [] then False
      else case url_ParseRequestURI L urlStr of
        None \<Rightarrow> False
      | Some parsedURL \<Rightarrow>
          if Scheme parsedURL \<noteq> ''http'' \<and> Scheme parsedURL \<noteq> ''https'' then False
          else if EqualFold allow ''true'' then True
          else
            let host = ToLower L (Host parsedURL)
            in \<not> list_ex (\<lambda>dangerous. Contains host dangerous) dangerousDomains)"

datatype http_result = Failed | Status int

definition statusOK :: "int \<Rightarrow> bool" where
  "statusOK code = ((code \<ge> 200 \<and> code < 400) \<or> code = 401 \<or> code = 403 \<or> code = 405 \<or> code = 429)"

definition ValidateURLReachable ::
    "stdlib \<Rightarrow> string \<Rightarrow> (string \<Rightarrow> http_result) \<Rightarrow> (string \<Rightarrow> http_result) \<Rightarrow> string \<Rightarrow> bool" where
  \<comment> \<open>\<open>head\<close> and \<open>get\<close> are the outcomes of the HEAD request and of the ranged GET request for
      a URL: \<open>Failed\<close> when the request cannot be built or sent, the status code otherwise\<close>
  "ValidateURLReachable L allow head get urlStr =
     (if \<not> ValidateURL L allow urlStr then False
      else
        let tryGet = (case get urlStr of Failed \<Rightarrow> False | Status code \<Rightarrow> statusOK code \<or> code = 416)
        in case head urlStr of
             Failed \<Rightarrow> tryGet
           | Status code \<Rightarrow>
               if statusOK code then True
               else if code \<noteq> 405 then False
               else tryGet)"

section \<open>A reference value of the standard library\<close>

text \<open>
  The examples of this theory need one value of \<^typ>\<open>stdlib\<close>.  Its URL parser follows
  \<^verbatim>\<open>parse\<close> of \<^verbatim>\<open>net/url\<close> as \<^verbatim>\<open>ParseRequestURI\<close> calls it (\<^verbatim>\<open>viaRequest\<close> is true), and
  keeps the scheme and the host of the result.  Its time parser follows \<^verbatim>\<open>time.Parse\<close> on
  the layout \<^verbatim>\<open>2006-01-02T15:04:05Z07:00\<close>.  The case tables of runes outside ASCII are left
  as the identity and the JSON decoder decodes nothing: an example that needs a decoded
  page sets the decoder itself.
\<close>

definition isDigit :: "char \<Rightarrow> bool" where
  "isDigit c = (48 \<le> (of_char c :: nat) \<and> (of_char c :: nat) \<le> 57)"

definition isAlpha :: "char \<Rightarrow> bool" where
  "isAlpha c = ((97 \<le> (of_char c :: nat) \<and> (of_char c :: nat) \<le> 122) \<or> (65 \<le> (of_char c :: nat) \<and> (of_char c :: nat) \<le> 90))"

definition ishex :: "char \<Rightarrow> bool" where
  "ishex c = (isDigit c \<or> (97 \<le> (of_char c :: nat) \<and> (of_char c :: nat) \<le> 102) \<or> (65 \<le> (of_char c :: nat) \<and> (of_char c :: nat) \<le> 70))"

definition unhex :: "char \<Rightarrow> nat" where
  "unhex c =
     (if isDigit c then of_char c - 48
      else if 97 \<le> (of_char c :: nat) \<and> (of_char c :: nat) \<le> 102 then of_char c - 97 + 10
      else if 65 \<le> (of_char c :: nat) \<and> (of_char c :: nat) \<le> 70 then of_char c - 65 + 10
      else 0)"

definition stringContainsCTLByte :: "string \<Rightarrow> bool" where
  "stringContainsCTLByte s = list_ex (\<lambda>b. (of_char b :: nat) < 32 \<or> (of_char b :: nat) = 127) s"

fun getScheme_loop :: "string \<Rightarrow> string \<Rightarrow> string \<Rightarrow> (string \<times> string) option" where
  \<comment> \<open>\<open>seen\<close> is \<^verbatim>\<open>rawURL[:i]\<close>; \<open>None\<close> is the error \<^verbatim>\<open>missing protocol scheme\<close>\<close>
  "getScheme_loop rawURL seen [] = Some ([], rawURL)"
| "getScheme_loop rawURL seen (c # cs) =
     (if isAlpha c then getScheme_loop rawURL (seen @ [c]) cs
      else if isDigit c \<or> c = CHR ''+'' \<or> c = CHR ''-'' \<or> c = CHR ''.'' then
        (if seen = [] then Some ([], rawURL) else getScheme_loop rawURL (seen @ [c]) cs)
      else if c = CHR '':'' then
        (if seen = [] then None else Some (seen, cs))
      else Some ([], rawURL))"

definition getScheme :: "string \<Rightarrow> (string \<times> string) option" where
  "getScheme rawURL = getScheme_loop rawURL [] rawURL"

datatype encoding = encodePath | encodeHost | encodeZone | encodeUserPassword

definition shouldEscape_host :: "char \<Rightarrow> bool" where
  \<comment> \<open>\<^verbatim>\<open>shouldEscape(c, encodeHost)\<close>\<close>
  "shouldEscape_host c =
     (\<not> (isAlpha c \<or> isDigit c
         \<or> c \<in> set (''!$&()*+,;=:[]<>'' @ [CHR 0x27, CHR 0x22])
         \<or> c \<in> set ''-_.~''))"

fun unescape_ok :: "encoding \<Rightarrow> string \<Rightarrow> bool" where
  \<comment> \<open>the first pass of \<^verbatim>\<open>unescape\<close>, which finds the errors\<close>
  "unescape_ok mode [] = True"
| "unescape_ok mode (c # cs) =
     (if c = CHR ''%'' then
        (case cs of
           h1 # h2 # rest \<Rightarrow>
             if \<not> ishex h1 \<or> \<not> ishex h2 then False
             else if mode = encodeHost \<and> unhex h1 < 8 \<and> [h1, h2] \<noteq> ''25'' then False
             else if mode = encodeZone \<and> [h1, h2] \<noteq> ''25'' \<and> unhex h1 * 16 + unhex h2 \<noteq> 32
                     \<and> (unhex h1 * 16 + unhex h2 \<ge> 128 \<or> shouldEscape_host (char_of (unhex h1 * 16 + unhex h2))) then False
             else unescape_ok mode rest
         | _ \<Rightarrow> False)
      else if (mode = encodeHost \<or> mode = encodeZone) \<and> (of_char c :: nat) < 128 \<and> shouldEscape_host c then False
      else unescape_ok mode cs)"

fun unescape_bytes :: "string \<Rightarrow> string" where
  \<comment> \<open>the second pass of \<^verbatim>\<open>unescape\<close> outside a query: each \<^verbatim>\<open>%XX\<close> becomes one byte\<close>
  "unescape_bytes (c # h1 # h2 # rest) =
     (if c = CHR ''%'' then char_of (unhex h1 * 16 + unhex h2) # unescape_bytes rest
      else c # unescape_bytes (h1 # h2 # rest))"
| "unescape_bytes s = s"

definition unescape :: "encoding \<Rightarrow> string \<Rightarrow> string option" where
  "unescape mode s = (if unescape_ok mode s then Some (unescape_bytes s) else None)"

definition validOptionalPort :: "string \<Rightarrow> bool" where
  "validOptionalPort port =
     (case port of [] \<Rightarrow> True | c # ds \<Rightarrow> c = CHR '':'' \<and> list_all isDigit ds)"

definition LastIndex :: "string \<Rightarrow> char \<Rightarrow> nat option" where
  \<comment> \<open>\<^verbatim>\<open>strings.LastIndex\<close> for a one-byte needle; \<open>None\<close> is -1\<close>
  "LastIndex s c = (if c \<in> set s then Some (length s - 1 - length (takeWhile (\<lambda>x. x \<noteq> c) (rev s))) else None)"

fun Index :: "string \<Rightarrow> string \<Rightarrow> nat option" where
  \<comment> \<open>\<^verbatim>\<open>strings.Index\<close>; \<open>None\<close> is -1\<close>
  "Index [] sub = (if sub = [] then Some 0 else None)"
| "Index (c # cs) sub = (if prefix sub (c # cs) then Some 0 else map_option Suc (Index cs sub))"

definition parseHost :: "string \<Rightarrow> string option" where
  "parseHost host =
     (if prefix ''['' host then
        (case LastIndex host (CHR '']'') of
           None \<Rightarrow> None
         | Some i \<Rightarrow>
             if \<not> validOptionalPort (drop (i + 1) host) then None
             else case Index (take i host) ''%25'' of
               Some zone \<Rightarrow>
                 (case (unescape encodeHost (take zone host), unescape encodeZone (drop zone (take i host)),
                        unescape encodeHost (drop i host)) of
                    (Some host1, Some host2, Some host3) \<Rightarrow> Some (host1 @ host2 @ host3)
                  | _ \<Rightarrow> None)
             | None \<Rightarrow> unescape encodeHost host)
      else case LastIndex host (CHR '':'') of
        Some i \<Rightarrow> if \<not> validOptionalPort (drop i host) then None else unescape encodeHost host
      | None \<Rightarrow> unescape encodeHost host)"

definition validUserinfo :: "string \<Rightarrow> bool" where
  "validUserinfo s = list_all (\<lambda>r. isAlpha r \<or> isDigit r \<or> r \<in> set (''-._:~!$&()*+,;=%@'' @ [CHR 0x27])) s"

definition parseAuthority :: "string \<Rightarrow> string option" where
  \<comment> \<open>the host of the authority; \<open>None\<close> is an error\<close>
  "parseAuthority authority =
     (case LastIndex authority (CHR ''@'') of
        None \<Rightarrow> parseHost authority
      | Some i \<Rightarrow>
          (case parseHost (drop (i + 1) authority) of
             None \<Rightarrow> None
           | Some host \<Rightarrow>
               let userinfo = take i authority
               in if \<not> validUserinfo userinfo then None
                  else if CHR '':'' \<notin> set userinfo then
                    (if unescape_ok encodeUserPassword userinfo then Some host else None)
                  else
                    let username = takeWhile (\<lambda>c. c \<noteq> CHR '':'') userinfo;
                        password = drop (length username + 1) userinfo
                    in if unescape_ok encodeUserPassword username \<and> unescape_ok encodeUserPassword password
                       then Some host else None))"

definition go_ParseRequestURI :: "string \<Rightarrow> url_URL option" where
  "go_ParseRequestURI rawURL =
     (if stringContainsCTLByte rawURL then None
      else if rawURL = [] then None
      else if rawURL = ''*'' then Some \<lparr>Scheme = [], Host = []\<rparr>
      else case getScheme rawURL of
        None \<Rightarrow> None
      | Some (scheme, rest) \<Rightarrow>
          let scheme = map ascii_lower scheme;
              rest = takeWhile (\<lambda>c. c \<noteq> CHR ''?'') rest
          in if \<not> prefix ''/'' rest then
               (if scheme \<noteq> [] then Some \<lparr>Scheme = scheme, Host = []\<rparr> else None)
             else if scheme \<noteq> [] \<and> prefix ''//'' rest then
               (let authority = takeWhile (\<lambda>c. c \<noteq> CHR ''/'') (drop 2 rest);
                    rest = dropWhile (\<lambda>c. c \<noteq> CHR ''/'') (drop 2 rest)
                in case parseAuthority authority of
                     None \<Rightarrow> None
                   | Some host \<Rightarrow>
                       if unescape_ok encodePath rest then Some \<lparr>Scheme = scheme, Host = host\<rparr> else None)
             else if unescape_ok encodePath rest then Some \<lparr>Scheme = scheme, Host = []\<rparr>
             else None)"

fun getnum :: "bool \<Rightarrow> string \<Rightarrow> (nat \<times> string) option" where
  \<comment> \<open>\<^verbatim>\<open>getnum(s, fixed)\<close> of package time: one or two digits, two when \<open>fixed\<close>\<close>
  "getnum fixed [] = None"
| "getnum fixed [c] = (if isDigit c \<and> \<not> fixed then Some (of_char c - 48, []) else None)"
| "getnum fixed (c # d # rest) =
     (if \<not> isDigit c then None
      else if \<not> isDigit d then (if fixed then None else Some (of_char c - 48, d # rest))
      else Some ((of_char c - 48) * 10 + (of_char d - 48), rest))"

definition skip_byte :: "char \<Rightarrow> string \<Rightarrow> string option" where
  \<comment> \<open>\<^verbatim>\<open>skip(value, prefix)\<close> for a one-byte prefix of the layout\<close>
  "skip_byte p v = (case v of [] \<Rightarrow> None | c # cs \<Rightarrow> if c = p then Some cs else None)"

definition isLeap :: "nat \<Rightarrow> bool" where
  "isLeap year = (year mod 4 = 0 \<and> (year mod 100 \<noteq> 0 \<or> year mod 400 = 0))"

definition daysIn :: "nat \<Rightarrow> nat \<Rightarrow> nat" where
  "daysIn m year =
     (if m = 2 then (if isLeap year then 29 else 28)
      else if m \<in> {4, 6, 9, 11} then 30 else 31)"

definition parse_zone :: "string \<Rightarrow> string option" where
  \<comment> \<open>the element \<^verbatim>\<open>Z07:00\<close>: the rest of the value, \<open>None\<close> on an error\<close>
  "parse_zone v =
     (if prefix ''Z'' v then Some (drop 1 v)
      else if length v < 6 then None
      else if v ! 3 \<noteq> CHR '':'' then None
      else case (getnum True (take 2 (drop 1 v)), getnum True (take 2 (drop 4 v))) of
        (Some (hr, _), Some (mm, _)) \<Rightarrow>
          if hr > 24 \<or> mm > 60 then None
          else if v ! 0 = CHR ''+'' \<or> v ! 0 = CHR ''-'' then Some (drop 6 v)
          else None
      | _ \<Rightarrow> None)"

definition skip_fraction :: "string \<Rightarrow> string" where
  \<comment> \<open>a fractional second in the value that the layout does not have is read and dropped\<close>
  "skip_fraction v =
     (case v of
        c # d # rest \<Rightarrow>
          if (c = CHR ''.'' \<or> c = CHR '','') \<and> isDigit d then dropWhile isDigit rest else v
      | _ \<Rightarrow> v)"

definition go_time_Parse_RFC3339 :: "string \<Rightarrow> bool" where
  "go_time_Parse_RFC3339 v =
     (if length v < 4 \<or> \<not> list_all isDigit (take 4 v) then False
      else
        let year = foldl (\<lambda>n c. n * 10 + (of_char c - 48)) 0 (take 4 v)
        in case Option.bind (skip_byte (CHR ''-'') (drop 4 v)) (getnum True) of
          None \<Rightarrow> False
        | Some (month, v) \<Rightarrow>
            if month \<le> 0 \<or> 12 < month then False
            else case Option.bind (skip_byte (CHR ''-'') v) (getnum True) of
              None \<Rightarrow> False
            | Some (day, v) \<Rightarrow>
                (case Option.bind (skip_byte (CHR ''T'') v) (getnum False) of
                   None \<Rightarrow> False
                 | Some (hour, v) \<Rightarrow>
                     if 24 \<le> hour then False
                     else case Option.bind (skip_byte (CHR '':'') v) (getnum True) of
                       None \<Rightarrow> False
                     | Some (minute, v) \<Rightarrow>
                         if 60 \<le> minute then False
                         else case Option.bind (skip_byte (CHR '':'') v) (getnum True) of
                           None \<Rightarrow> False
                         | Some (sec, v) \<Rightarrow>
                             if 60 \<le> sec then False
                             else case parse_zone (skip_fraction v) of
                               None \<Rightarrow> False
                             | Some v \<Rightarrow> v = [] \<and> 1 \<le> day \<and> day \<le> daysIn month year))"

definition go_stdlib :: stdlib where
  "go_stdlib =
     \<lparr>unicode_ToUpper = (\<lambda>s. s), unicode_ToLower = (\<lambda>s. s),
      url_ParseRequestURI = go_ParseRequestURI, time_Parse_RFC3339 = go_time_Parse_RFC3339,
      json_Unmarshal = (\<lambda>data. None)\<rparr>"

section \<open>Package core: bounties and the scoring engine\<close>

text \<open>
  A \<^verbatim>\<open>time.Time\<close> is modelled as the instant in nanoseconds (an unbounded \<^typ>\<open>int\<close>),
  a \<^verbatim>\<open>time.Duration\<close> as a number of nanoseconds in the range of a 64-bit integer.
\<close>

record Bounty =
  ID :: string
  Title :: string
  Platform :: string
  Reward :: string
  Currency :: string
  URL :: string
  CreatedAt :: int
  Score :: int
  Description :: string
  Tags :: "string list"
  ExpiresAt :: "int option"
  PaymentType :: string

record PaymentConfig =
  CryptoCurrencies :: "string list"
  P2PMethods :: "string list"
  FiatMethods :: "string list"

record ScoringConfig =
  UrgencyKeywords :: "string list"
  DevTaskKeywords :: "string list"
  AutomationKeywords :: "string list"
  SecurityKeywords :: "string list"
  AuditKeywords :: "string list"

definition defaultPaymentConfig :: PaymentConfig where
  "defaultPaymentConfig =
     \<lparr>CryptoCurrencies = [''USDC'', ''USDT'', ''SOL'', ''ETH'', ''BTC'', ''MATIC'', ''AVAX'', ''ARB'', ''OP''],
      P2PMethods = [''CASHAPP'', ''VENMO'', ''CASH APP''],
      FiatMethods = [''USD'', ''PAYPAL'', ''STRIPE'', ''WISE'']\<rparr>"

definition defaultScoringConfig :: ScoringConfig where
  "defaultScoringConfig =
     \<lparr>UrgencyKeywords = [''URGENT'', ''ASAP'', ''CRITICAL'', ''IMMEDIATE'', ''EMERGENCY''],
      DevTaskKeywords = [''FIX'', ''BUG'', ''API'', ''INTEGRATION'', ''SMART CONTRACT'', ''BLOCKCHAIN''],
      AutomationKeywords = [''SCRIPT'', ''BOT''],
      SecurityKeywords = [''SECURITY'', ''VULNERABILITY'', ''PENTEST'', ''HACK'', ''EXPLOIT''],
      AuditKeywords = [''AUDIT'']\<rparr>"

definition coalesceList :: "string list \<Rightarrow> string list \<Rightarrow> string list" where
  "coalesceList list fallback = (if length list = 0 then fallback else list)"

fun normalizeUpperList_loop :: "stdlib \<Rightarrow> string list \<Rightarrow> string list \<Rightarrow> string list" where
  \<comment> \<open>the loop of \<^verbatim>\<open>normalizeUpperList\<close>; \<open>seen\<close> holds the keys of the map \<^verbatim>\<open>seen\<close>\<close>
  "normalizeUpperList_loop L seen [] = []"
| "normalizeUpperList_loop L seen (item # rest) =
     (let trimmed = ToUpper L (TrimSpace item)
      in if trimmed = [] then normalizeUpperList_loop L seen rest
         else if trimmed \<in> set seen then normalizeUpperList_loop L seen rest
         else trimmed # normalizeUpperList_loop L (trimmed # seen) rest)"

definition normalizeUpperList :: "stdlib \<Rightarrow> string list \<Rightarrow> string list" where
  "normalizeUpperList L list = normalizeUpperList_loop L [] list"

definition normalizePaymentConfig :: "stdlib \<Rightarrow> PaymentConfig \<Rightarrow> PaymentConfig" where
  "normalizePaymentConfig L cfg =
     (let defaults = defaultPaymentConfig;
          cfg = cfg\<lparr>CryptoCurrencies := normalizeUpperList L (coalesceList (CryptoCurrencies cfg) (CryptoCurrencies defaults))\<rparr>;
          cfg = cfg\<lparr>P2PMethods := normalizeUpperList L (coalesceList (P2PMethods cfg) (P2PMethods defaults))\<rparr>;
          cfg = cfg\<lparr>FiatMethods := normalizeUpperList L (coalesceList (FiatMethods cfg) (FiatMethods defaults))\<rparr>
      in cfg)"

definition removeOverlap :: "string list \<Rightarrow> string list \<Rightarrow> string list" where
  "removeOverlap base blacklist =
     (if length base = 0 \<or> length blacklist = 0 then base
      else filter (\<lambda>item. item \<notin> set blacklist) base)"

definition normalizeScoringConfig :: "stdlib \<Rightarrow> ScoringConfig \<Rightarrow> ScoringConfig" where
  "normalizeScoringConfig L cfg =
     (let defaults = defaultScoringConfig;
          cfg = cfg\<lparr>UrgencyKeywords := normalizeUpperList L (coalesceList (UrgencyKeywords cfg) (UrgencyKeywords defaults))\<rparr>;
          cfg = cfg\<lparr>DevTaskKeywords := normalizeUpperList L (coalesceList (DevTaskKeywords cfg) (DevTaskKeywords defaults))\<rparr>;
          cfg = cfg\<lparr>AutomationKeywords := normalizeUpperList L (coalesceList (AutomationKeywords cfg) (AutomationKeywords defaults))\<rparr>;
          cfg = cfg\<lparr>SecurityKeywords := normalizeUpperList L (coalesceList (SecurityKeywords cfg) (SecurityKeywords defaults))\<rparr>;
          cfg = cfg\<lparr>AuditKeywords := normalizeUpperList L (coalesceList (AuditKeywords cfg) (AuditKeywords defaults))\<rparr>;
          cfg = cfg\<lparr>DevTaskKeywords := removeOverlap (DevTaskKeywords cfg) (AutomationKeywords cfg)\<rparr>;
          cfg = cfg\<lparr>SecurityKeywords := removeOverlap (SecurityKeywords cfg) (AuditKeywords cfg)\<rparr>
      in cfg)"

text \<open>
  The package variables \<^verbatim>\<open>paymentConfig\<close> and \<^verbatim>\<open>scoringConfig\<close> are the state of package
  core; their initialisers are the defaults, and the two setters are the only writers.
\<close>

record core_state =
  paymentConfig :: PaymentConfig
  scoringConfig :: ScoringConfig

definition core_init :: core_state where
  "core_init = \<lparr>paymentConfig = defaultPaymentConfig, scoringConfig = defaultScoringConfig\<rparr>"

definition SetScoringConfig :: "stdlib \<Rightarrow> ScoringConfig \<Rightarrow> core_state \<Rightarrow> core_state" where
  "SetScoringConfig L cfg st = st\<lparr>scoringConfig := normalizeScoringConfig L cfg\<rparr>"

definition SetPaymentConfig :: "stdlib \<Rightarrow> PaymentConfig \<Rightarrow> core_state \<Rightarrow> core_state" where
  "SetPaymentConfig L cfg st = st\<lparr>paymentConfig := normalizePaymentConfig L cfg\<rparr>"

definition containsCurrency :: "stdlib \<Rightarrow> string \<Rightarrow> string list \<Rightarrow> bool" where
  "containsCurrency L val tokens =
     (let upper = ToUpper L val;
          compact = ReplaceAll upper (CHR '' '') []
      in list_ex (\<lambda>token. token \<noteq> [] \<and>
            (let target = ToUpper L token;
                 targetCompact = ReplaceAll target (CHR '' '') []
             in Contains upper target \<or> Contains compact targetCompact)) tokens)"

definition containsAny :: "string \<Rightarrow> string list \<Rightarrow> bool" where
  "containsAny text keywords = list_ex (\<lambda>keyword. keyword \<noteq> [] \<and> Contains text keyword) keywords"

definition Hour :: int where
  "Hour = 3600 * 1000000000"

definition Since :: "int \<Rightarrow> int \<Rightarrow> int" where
  \<comment> \<open>\<^verbatim>\<open>time.Since(t)\<close> when the clock reads \<open>now\<close>; \<^verbatim>\<open>Time.Sub\<close> saturates at the ends of
      the 64-bit range\<close>
  "Since now t = max (- (2 ^ 63)) (min (2 ^ 63 - 1) (now - t))"

definition tag_bonus :: "stdlib \<Rightarrow> string \<Rightarrow> int \<Rightarrow> int" where
  \<comment> \<open>the body of the loop over \<^verbatim>\<open>b.Tags\<close>\<close>
  "tag_bonus L tag score =
     (let tagUpper = ToUpper L tag;
          score = (if Contains tagUpper ''URGENT'' then score + 20 else score);
          score = (if Contains tagUpper ''HOT'' then score + 15 else score);
          score = (if Contains tagUpper ''DEADLINE'' then score + 10 else score)
      in score)"

definition CalculateUrgency :: "stdlib \<Rightarrow> core_state \<Rightarrow> int \<Rightarrow> Bounty \<Rightarrow> int" where
  \<comment> \<open>\<open>now\<close> is the reading of the clock; the score is a Go \<^verbatim>\<open>int\<close>, which a sum of at most
      270 and 45 for each tag cannot overflow\<close>
  "CalculateUrgency L st now b =
     (let score = 0;
          titleUpper = ToUpper L (Title b);
          score =
            (if containsCurrency L (Currency b) (CryptoCurrencies (paymentConfig st)) then score + 50
             else if containsCurrency L (Currency b) (P2PMethods (paymentConfig st)) then score + 45
             else if containsCurrency L (Currency b) (FiatMethods (paymentConfig st)) then score + 25
             else score + 5);
          score = (if containsAny titleUpper (UrgencyKeywords (scoringConfig st)) then score + 30 else score);
          score = (if containsAny titleUpper (DevTaskKeywords (scoringConfig st)) then score + 15 else score);
          score = (if containsAny titleUpper (AutomationKeywords (scoringConfig st)) then score + 20 else score);
          score = (if containsAny titleUpper (SecurityKeywords (scoringConfig st)) then score + 25 else score);
          score = (if containsAny titleUpper (AuditKeywords (scoringConfig st)) then score + 35 else score);
          duration = Since now (CreatedAt b);
          score =
            (if duration < 1 * Hour then score + 40
             else if duration < 6 * Hour then score + 25
             else if duration < 24 * Hour then score + 10
             else score);
          platformUpper = ToUpper L (Platform b);
          score = (if Contains platformUpper ''SUPERTEAM'' then score + 15 else score);
          score = (if Contains platformUpper ''BOUNTYCASTER'' then score + 10 else score);
          score = (if Contains platformUpper ''IMMUNEFI'' \<or> Contains platformUpper ''HACKEN'' then score + 30 else score)
      in fold (tag_bonus L) (Tags b) score)"

section \<open>Package storage: the SQLite table\<close>

text \<open>
  The table \<^verbatim>\<open>bounties\<close> has the primary key \<^verbatim>\<open>url\<close>, so its content is a map from the URL
  to the other columns.  \<^verbatim>\<open>created_at\<close> and \<^verbatim>\<open>expires_at\<close> are written in the format RFC3339,
  which keeps whole seconds.  The column list has no \<^verbatim>\<open>id\<close>.  \<^verbatim>\<open>json.Marshal\<close> of the tags, a
  list of strings, has no error.  A statement that fails changes nothing; whether it fails
  is an input of the model.
\<close>

record row =
  col_title :: string
  col_platform :: string
  col_reward :: string
  col_currency :: string
  col_created_at :: int
  col_score :: int
  col_description :: string
  col_tags :: "string list"
  col_expires_at :: "int option"
  col_payment_type :: string

type_synonym table = "string \<rightharpoonup> row"

definition row_of :: "Bounty \<Rightarrow> row" where
  "row_of bounty =
     \<lparr>col_title = Title bounty, col_platform = Platform bounty, col_reward = Reward bounty,
      col_currency = Currency bounty, col_created_at = CreatedAt bounty div 1000000000,
      col_score = Score bounty, col_description = Description bounty, col_tags = Tags bounty,
      col_expires_at = map_option (\<lambda>t. t div 1000000000) (ExpiresAt bounty),
      col_payment_type = PaymentType bounty\<rparr>"

definition Save :: "bool \<Rightarrow> table \<Rightarrow> Bounty \<Rightarrow> table option" where
  \<comment> \<open>\<^verbatim>\<open>INSERT OR REPLACE\<close>; \<open>None\<close> is the error of \<^verbatim>\<open>Exec\<close>\<close>
  "Save fails db bounty = (if fails then None else Some (db(URL bounty \<mapsto> row_of bounty)))"

definition IsNew :: "bool \<Rightarrow> table \<Rightarrow> string \<Rightarrow> bool option" where
  \<comment> \<open>\<^verbatim>\<open>SELECT 1 FROM bounties WHERE url = ?\<close>; \<open>None\<close> is an error other than \<^verbatim>\<open>ErrNoRows\<close>\<close>
  "IsNew fails db url = (if fails then None else Some (db url = None))"

section \<open>Command obsidian: the funnel\<close>

text \<open>
  The goroutine that reads \<^verbatim>\<open>bountyChan\<close> handles one bounty at a time.  What it reads from
  outside the program while it handles one bounty is the record \<open>world\<close>; what it does to
  the outside, the table apart, is a list of events in the order of the calls.
\<close>

record config =
  ValidateLinksHTTP :: bool
  MinScore :: int
  discordWebhook :: string

record world =
  ALLOW_LOCAL_URLS :: string
  clock :: int
  http_head :: "string \<Rightarrow> http_result"
  http_get :: "string \<Rightarrow> http_result"
  query_fails :: bool
  exec_fails :: bool

datatype event =
  WarnInvalidURL string
| WarnUnreachableURL string
| ErrorIsNew
| SaveCalled Bounty
| ErrorSave
| Broadcast Bounty
| DesktopAlert Bounty
| DiscordAlert Bounty

definition process_bounty ::
    "stdlib \<Rightarrow> core_state \<Rightarrow> config \<Rightarrow> world \<Rightarrow> table \<Rightarrow> Bounty \<Rightarrow> table \<times> event list" where
  \<comment> \<open>the body of the loop \<^verbatim>\<open>for bounty := range bountyChan\<close>\<close>
  "process_bounty L st cfg w db bounty =
     (let bounty = bounty\<lparr>URL := NormalizeURL (URL bounty)\<rparr>
      in if URL bounty = [] \<or> \<not> ValidateURL L (ALLOW_LOCAL_URLS w) (URL bounty)
         then (db, [WarnInvalidURL (URL bounty)])
         else if ValidateLinksHTTP cfg
                 \<and> \<not> ValidateURLReachable L (ALLOW_LOCAL_URLS w) (http_head w) (http_get w) (URL bounty)
         then (db, [WarnUnreachableURL (URL bounty)])
         else
           let bounty = bounty\<lparr>Title := SanitizeString (Title bounty)\<rparr>;
               bounty = bounty\<lparr>Platform := SanitizeString (Platform bounty)\<rparr>;
               bounty = bounty\<lparr>Reward := SanitizeString (Reward bounty)\<rparr>;
               bounty = bounty\<lparr>Currency := SanitizeString (Currency bounty)\<rparr>;
               bounty = bounty\<lparr>Description := SanitizeString (Description bounty)\<rparr>
           in case IsNew (query_fails w) db (URL bounty) of
                None \<Rightarrow> (db, [ErrorIsNew])
              | Some isNew \<Rightarrow>
                  if \<not> isNew then (db, [])
                  else
                    let bounty = bounty\<lparr>Score := CalculateUrgency L st (clock w) bounty\<rparr>
                    in case Save (exec_fails w) db bounty of
                         None \<Rightarrow> (db, [SaveCalled bounty, ErrorSave])
                       | Some db' \<Rightarrow>
                           (db', [SaveCalled bounty, Broadcast bounty]
                                 @ (if Score bounty \<ge> MinScore cfg
                                    then DesktopAlert bounty
                                         # (if discordWebhook cfg \<noteq> [] then [DiscordAlert bounty] else [])
                                    else [])))"

definition is_SaveCalled :: "event \<Rightarrow> bool" where
  "is_SaveCalled e = (case e of SaveCalled b \<Rightarrow> True | _ \<Rightarrow> False)"

section \<open>Package scanners: the retry executor\<close>

text \<open>
  \<^verbatim>\<open>client.Do\<close> answers the attempt number \<open>i\<close> with \<open>do i\<close>: \<open>Failed\<close> is an error without a
  response, \<open>Status code\<close> a response.  \<open>cancelled i\<close> tells that the context is done before
  the wait that precedes attempt \<open>i\<close> has elapsed.
\<close>

definition maxRetries :: nat where
  "maxRetries = 3"

datatype retry_event = Wait int | LogRetrying nat | Send nat

datatype retry_result = Returned int | ContextError | GaveUp "http_result option"

function doRequestWithRetry_loop ::
    "int \<Rightarrow> (nat \<Rightarrow> http_result) \<Rightarrow> (nat \<Rightarrow> bool) \<Rightarrow> nat \<Rightarrow> http_result option
       \<Rightarrow> retry_result \<times> retry_event list" where
  \<comment> \<open>the loop from \<open>i\<close> on; \<open>lastErr\<close> is the failure of the attempt before\<close>
  "doRequestWithRetry_loop baseBackoff do cancelled i lastErr =
     (if i \<le> maxRetries then
        if i > 0 \<and> cancelled i then (ContextError, [])
        else
          let before = (if i > 0 then [Wait (2 ^ (i - 1) * baseBackoff), LogRetrying i] else [])
          in case do i of
               Status code \<Rightarrow>
                 if code \<ge> 500 \<or> code = 429 then
                   (let (res, evs) = doRequestWithRetry_loop baseBackoff do cancelled (i + 1) (Some (Status code))
                    in (res, before @ Send i # evs))
                 else (Returned code, before @ [Send i])
             | Failed \<Rightarrow>
                 (let (res, evs) = doRequestWithRetry_loop baseBackoff do cancelled (i + 1) (Some Failed)
                  in (res, before @ Send i # evs))
      else (GaveUp lastErr, []))"
  by pat_completeness auto
termination
  by (relation "measure (\<lambda>(b, d, c, i, l). maxRetries + 1 - i)") auto

declare doRequestWithRetry_loop.simps [simp del]

definition doRequestWithRetry ::
    "int \<Rightarrow> (nat \<Rightarrow> http_result) \<Rightarrow> (nat \<Rightarrow> bool) \<Rightarrow> retry_result \<times> retry_event list" where
  "doRequestWithRetry baseBackoff do cancelled = doRequestWithRetry_loop baseBackoff do cancelled 0 None"

definition attempts :: "retry_result \<times> retry_event list \<Rightarrow> nat list" where
  \<comment> \<open>the numbers of the attempts that were sent, in order\<close>
  "attempts r = concat (map (\<lambda>e. case e of Send i \<Rightarrow> [i] | _ \<Rightarrow> []) (snd r))"

definition retried :: "http_result \<Rightarrow> bool" where
  \<comment> \<open>the outcomes after which the loop goes on\<close>
  "retried r = (case r of Failed \<Rightarrow> True | Status code \<Rightarrow> code \<ge> 500 \<or> code = 429)"

definition retry_ok :: "(nat \<Rightarrow> http_result) \<Rightarrow> nat \<Rightarrow> retry_result \<times> retry_event list \<Rightarrow> bool" where
  "retry_ok do i r =
     (\<exists>m. i \<le> m \<and> m \<le> maxRetries + 1 \<and> attempts r = [i..<m]
          \<and> (\<forall>k. i \<le> k \<and> Suc k < m \<longrightarrow> retried (do k))
          \<and> (\<forall>k code. i \<le> k \<and> k < m \<and> do k = Status code \<and> \<not> (code \<ge> 500 \<or> code = 429)
                 \<longrightarrow> fst r = Returned code \<and> m = Suc k))"

definition fails_three_times :: "nat \<Rightarrow> http_result" where
  \<comment> \<open>a server that answers 500 three times, then 200\<close>
  "fails_three_times i = (if i < 3 then Status 500 else Status 200)"

definition drops_first :: "nat \<Rightarrow> http_result" where
  \<comment> \<open>a connection that fails once, then a server that answers 200\<close>
  "drops_first i = (if i < 1 then Failed else Status 200)"

definition never_cancelled :: "nat \<Rightarrow> bool" where
  "never_cancelled i = False"

section \<open>Auxiliary functions for the proofs about the score\<close>

definition tags_total :: "stdlib \<Rightarrow> string list \<Rightarrow> int" where
  "tags_total L tags = fold (tag_bonus L) tags 0"

definition payment_tier :: "stdlib \<Rightarrow> core_state \<Rightarrow> string \<Rightarrow> int" where
  "payment_tier L st c =
     (if containsCurrency L c (CryptoCurrencies (paymentConfig st)) then 50
      else if containsCurrency L c (P2PMethods (paymentConfig st)) then 45
      else if containsCurrency L c (FiatMethods (paymentConfig st)) then 25
      else 5)"

definition keyword_bonus :: "stdlib \<Rightarrow> core_state \<Rightarrow> string \<Rightarrow> int" where
  "keyword_bonus L st t =
     (if containsAny (ToUpper L t) (UrgencyKeywords (scoringConfig st)) then 30 else 0)
     + (if containsAny (ToUpper L t) (DevTaskKeywords (scoringConfig st)) then 15 else 0)
     + (if containsAny (ToUpper L t) (AutomationKeywords (scoringConfig st)) then 20 else 0)
     + (if containsAny (ToUpper L t) (SecurityKeywords (scoringConfig st)) then 25 else 0)
     + (if containsAny (ToUpper L t) (AuditKeywords (scoringConfig st)) then 35 else 0)"

definition recency_bonus :: "int \<Rightarrow> int" where
  "recency_bonus d =
     (if d < 1 * Hour then 40 else if d < 6 * Hour then 25 else if d < 24 * Hour then 10 else 0)"

definition platform_bonus :: "stdlib \<Rightarrow> string \<Rightarrow> int" where
  "platform_bonus L p =
     (if Contains (ToUpper L p) ''SUPERTEAM'' then 15 else 0)
     + (if Contains (ToUpper L p) ''BOUNTYCASTER'' then 10 else 0)
     + (if Contains (ToUpper L p) ''IMMUNEFI'' \<or> Contains (ToUpper L p) ''HACKEN'' then 30 else 0)"

section \<open>Values for the examples\<close>

definition example_issue_ok :: GitHubIssue where
  "example_issue_ok =
     \<lparr>title = ''Test Issue'', html_url = ''https://github.com/test/test/issues/1'',
      created_at = ''2023-01-01T00:00:00Z'', body = ''Test body'', labels = []\<rparr>"

definition example_issue_xss :: GitHubIssue where
  "example_issue_xss =
     \<lparr>title = ''<script>alert(1)</script>'', html_url = ''https://github.com/test/test/issues/2'',
      created_at = ''2023-01-01T00:00:00Z'', body = ''Test body'', labels = []\<rparr>"


definition example_page_stdlib :: stdlib where
  \<comment> \<open>the page decodes to an accepted item followed by the item with the script title\<close>
  "example_page_stdlib =
     go_stdlib\<lparr>json_Unmarshal := (\<lambda>data. Some [example_issue_ok, example_issue_xss])\<rparr>"

definition example_bounty :: Bounty where
  "example_bounty =
     \<lparr>ID = ''1'', Title = ''Urgent: Fix Security Bug'', Platform = ''GitHub'', Reward = ''100'',
      Currency = ''USDC'', URL = ''https://github.com/test/test/issues/1'',
      CreatedAt = 1700000000000000000, Score = 0, Description = ''Test body'', Tags = [],
      ExpiresAt = None, PaymentType = ''crypto''\<rparr>"

definition example_overlap_config :: ScoringConfig where
  "example_overlap_config =
     \<lparr>UrgencyKeywords = [], DevTaskKeywords = ['' fix'', ''script'', ''Bot''],
      AutomationKeywords = [''Script'', ''bot''], SecurityKeywords = [''audit'', ''hack''],
      AuditKeywords = [''AUDIT'']\<rparr>"

definition example_config :: config where
  "example_config = \<lparr>ValidateLinksHTTP = False, MinScore = 50, discordWebhook = []\<rparr>"

definition example_world :: world where
  "example_world =
     \<lparr>ALLOW_LOCAL_URLS = [], clock = 1700000000000000000, http_head = (\<lambda>u. Status 200),
      http_get = (\<lambda>u. Status 200), query_fails = False, exec_fails = False\<rparr>"


definition example_metadata_bounty :: Bounty where
  "example_metadata_bounty = example_bounty\<lparr>URL := ''http://169.254.169.254/latest/meta-data/''\<rparr>"







definition example_override_world :: world where
  \<comment> \<open>the local-URL override is enabled\<close>
  "example_override_world =
     \<lparr>ALLOW_LOCAL_URLS = ''TRUE'', clock = 1700000000000000000, http_head = (\<lambda>u. Status 200),
      http_get = (\<lambda>u. Status 200), query_fails = False, exec_fails = False\<rparr>"

section \<open>Properties of SanitizeString\<close>

lemma ReplaceAll_space_length: "length (ReplaceAll s c '' '') = length s"
  by (induction s) (simp_all add: ReplaceAll_def)

lemma ReplaceAll_space_set:
  "set (ReplaceAll s c '' '') \<subseteq> (set s - {c}) \<union> {CHR '' ''}"
  by (induction s) (auto simp: ReplaceAll_def)

lemma ReplaceAll_space_removes: "c \<noteq> CHR '' '' \<Longrightarrow> c \<notin> set (ReplaceAll s c '' '')"
  using ReplaceAll_space_set [of s c] by auto

lemma ReplaceAll_space_keeps_out:
  "d \<notin> set s \<Longrightarrow> d \<noteq> CHR '' '' \<Longrightarrow> d \<notin> set (ReplaceAll s c '' '')"
  using ReplaceAll_space_set [of s c] by auto

text \<open>
  Claim C10.  For every input string, \<^const>\<open>SanitizeString\<close> returns a string that contains
  no newline, no carriage return and no tab, and whose length in bytes is at most 1003
  (1000 bytes and the three bytes of the truncation marker).
\<close>

theorem SanitizeString_single_bounded_line:
  "CHR 0x0A \<notin> set (SanitizeString s) \<and> CHR 0x0D \<notin> set (SanitizeString s)
   \<and> CHR 0x09 \<notin> set (SanitizeString s) \<and> length (SanitizeString s) \<le> 1003"
proof -
  define t where "t = ReplaceAll (ReplaceAll (ReplaceAll s (CHR 0x0A) '' '') (CHR 0x0D) '' '') (CHR 0x09) '' ''"
  have nl: "CHR 0x0A \<notin> set t"
    unfolding t_def
    by (intro ReplaceAll_space_keeps_out ReplaceAll_space_removes) simp_all
  have cr: "CHR 0x0D \<notin> set t"
    unfolding t_def
    by (intro ReplaceAll_space_keeps_out ReplaceAll_space_removes) simp_all
  have tab: "CHR 0x09 \<notin> set t"
    unfolding t_def by (intro ReplaceAll_space_removes) simp
  have out: "SanitizeString s = (if s = [] then [] else if length t > 1000 then take 1000 t @ ''...'' else t)"
    by (simp add: SanitizeString_def t_def Let_def)
  have sub: "set (take 1000 t) \<subseteq> set t"
    by (rule set_take_subset)
  show ?thesis
    using nl cr tab sub by (auto simp: out)
qed

theorem SanitizeString_single_bounded_line_witness:
  "SanitizeString (''Hello'' @ [CHR 0x0A] @ ''World'' @ [CHR 0x09] @ ''Test'' @ [CHR 0x0D]) = ''Hello World Test ''
   \<and> CHR 0x0A \<notin> set ''Hello World Test '' \<and> length ''Hello World Test '' \<le> 1003"
  using SanitizeString_single_bounded_line
    [of "''Hello'' @ [CHR 0x0A] @ ''World'' @ [CHR 0x09] @ ''Test'' @ [CHR 0x0D]"]
  by (simp add: SanitizeString_def ReplaceAll_def)

section \<open>Properties of the response validator\<close>

lemma validate_items_first_error:
  "it \<in> set items \<Longrightarrow> validateGitHubIssue L it \<noteq> None \<Longrightarrow> \<exists>j err. validate_items L i items = Some (InvalidItem j err)"
proof (induction items arbitrary: i)
  case Nil
  then show ?case by simp
next
  case (Cons a items)
  show ?case
  proof (cases "validateGitHubIssue L a")
    case None
    with Cons.prems have "it \<in> set items" by auto
    from Cons.IH [OF this Cons.prems(2), of "Suc i"] None show ?thesis by simp
  next
    case (Some err)
    then show ?thesis by simp
  qed
qed

lemma script_title_detected: "containsScriptTags ''<script>alert(1)</script>''"
  by code_simp

lemma script_title_rejected:
  "title it = ''<script>alert(1)</script>'' \<Longrightarrow> validateGitHubIssue L it \<noteq> None"
  by (simp add: validateGitHubIssue_def script_title_detected)

text \<open>
  Claim C1.  When the page decodes to a list of items and one item of the list fails
  \<^const>\<open>validateGitHubIssue\<close>, \<^const>\<open>ValidateGitHubResponse\<close> returns an error and no item of the
  page is accepted; an item titled \<^verbatim>\<open><script>alert(1)</script>\<close> is such an item, whatever
  its other fields are and whatever the other items of the page are.
\<close>

theorem ValidateGitHubResponse_fail_closed:
  assumes "json_Unmarshal L data = Some items"
    and "it \<in> set items"
    and "validateGitHubIssue L it \<noteq> None \<or> title it = ''<script>alert(1)</script>''"
  shows "(\<exists>err. ValidateGitHubResponse L data = Inl err)
         \<and> accepted_items (ValidateGitHubResponse L data) = []"
proof -
  from assms(3) have bad: "validateGitHubIssue L it \<noteq> None"
    using script_title_rejected by blast
  obtain j err where "validate_items L 0 items = Some (InvalidItem j err)"
    using validate_items_first_error [OF assms(2) bad] by blast
  then have "\<exists>err. ValidateGitHubResponse L data = Inl err"
    using assms(1) by (simp add: ValidateGitHubResponse_def)
  then show ?thesis
    by (auto simp: accepted_items_def)
qed

theorem ValidateGitHubResponse_fail_closed_witness:
  "json_Unmarshal example_page_stdlib ''{}'' = Some [example_issue_ok, example_issue_xss]
   \<and> validateGitHubIssue example_page_stdlib example_issue_ok = None
   \<and> title example_issue_xss = ''<script>alert(1)</script>''
   \<and> ValidateGitHubResponse example_page_stdlib ''{}'' = Inl (InvalidItem 1 XSSDetected)
   \<and> accepted_items (ValidateGitHubResponse example_page_stdlib ''{}'') = []"
proof -
  have h1: "json_Unmarshal example_page_stdlib ''{}'' = Some [example_issue_ok, example_issue_xss]"
    by (simp add: example_page_stdlib_def)
  have h2: "example_issue_xss \<in> set [example_issue_ok, example_issue_xss]"
    by simp
  have h3: "title example_issue_xss = ''<script>alert(1)</script>''"
    by (simp add: example_issue_xss_def)
  have ok: "validateGitHubIssue example_page_stdlib example_issue_ok = None"
    by code_simp
  have err: "ValidateGitHubResponse example_page_stdlib ''{}'' = Inl (InvalidItem 1 XSSDetected)"
    by code_simp
  from ValidateGitHubResponse_fail_closed [OF h1 h2 disjI2 [OF h3]] h1 h3 ok err
  show ?thesis by simp
qed

subsection \<open>The matcher and the language of the pattern\<close>












subsection \<open>Trimming and blank strings\<close>

















section \<open>Properties of the scoring engine\<close>

lemma if_add_shift: "(if c then (s::int) + a else s) = s + (if c then a else 0)"
  by simp

lemma tag_bonus_shift: "tag_bonus L tag score = score + tag_bonus L tag 0"
  by (simp add: tag_bonus_def Let_def)

lemma fold_tag_bonus_shift: "fold (tag_bonus L) tags score = score + tags_total L tags"
proof (induction tags arbitrary: score)
  case Nil
  then show ?case by (simp add: tags_total_def)
next
  case (Cons tag tags)
  have "fold (tag_bonus L) (tag # tags) score = tag_bonus L tag score + tags_total L tags"
    by (simp add: Cons.IH)
  also have "\<dots> = score + (tag_bonus L tag 0 + tags_total L tags)"
    using tag_bonus_shift [of L tag score] by simp
  also have "tag_bonus L tag 0 + tags_total L tags = tags_total L (tag # tags)"
    by (simp add: tags_total_def Cons.IH [of "tag_bonus L tag 0"])
  finally show ?case .
qed

lemma CalculateUrgency_sum:
  "CalculateUrgency L st now b =
     payment_tier L st (Currency b) + keyword_bonus L st (Title b)
     + recency_bonus (Since now (CreatedAt b)) + platform_bonus L (Platform b) + tags_total L (Tags b)"
  unfolding CalculateUrgency_def Let_def fold_tag_bonus_shift payment_tier_def keyword_bonus_def
    recency_bonus_def platform_bonus_def
  by (simp only: if_add_shift) simp

lemma tag_bonus_bounds: "0 \<le> tag_bonus L tag 0 \<and> tag_bonus L tag 0 \<le> 45"
  by (simp add: tag_bonus_def Let_def)

lemma tags_total_bounds: "0 \<le> tags_total L tags \<and> tags_total L tags \<le> 45 * int (length tags)"
proof (induction tags)
  case Nil
  then show ?case by (simp add: tags_total_def)
next
  case (Cons tag tags)
  have "tags_total L (tag # tags) = tag_bonus L tag 0 + tags_total L tags"
    using fold_tag_bonus_shift [of L tags "tag_bonus L tag 0"] by (simp add: tags_total_def)
  with Cons tag_bonus_bounds [of L tag] show ?case by simp
qed

lemma payment_tier_bounds: "5 \<le> payment_tier L st c \<and> payment_tier L st c \<le> 50"
  by (simp add: payment_tier_def)

lemma keyword_bonus_bounds: "0 \<le> keyword_bonus L st t \<and> keyword_bonus L st t \<le> 125"
proof -
  have b: "\<And>(c::bool) (a::int). 0 \<le> a \<Longrightarrow> 0 \<le> (if c then a else 0) \<and> (if c then a else 0) \<le> a"
    by simp
  show ?thesis
    unfolding keyword_bonus_def
    using b [of 30 "containsAny (ToUpper L t) (UrgencyKeywords (scoringConfig st))"]
      b [of 15 "containsAny (ToUpper L t) (DevTaskKeywords (scoringConfig st))"]
      b [of 20 "containsAny (ToUpper L t) (AutomationKeywords (scoringConfig st))"]
      b [of 25 "containsAny (ToUpper L t) (SecurityKeywords (scoringConfig st))"]
      b [of 35 "containsAny (ToUpper L t) (AuditKeywords (scoringConfig st))"]
    by linarith
qed

lemma recency_bonus_bounds: "0 \<le> recency_bonus d \<and> recency_bonus d \<le> 40"
  by (simp add: recency_bonus_def)

lemma platform_bonus_bounds: "0 \<le> platform_bonus L p \<and> platform_bonus L p \<le> 55"
  by (simp add: platform_bonus_def)

lemma CalculateUrgency_bounds:
  "5 \<le> CalculateUrgency L st now b \<and> CalculateUrgency L st now b \<le> 270 + 45 * int (length (Tags b))"
  using tags_total_bounds [of L "Tags b"] payment_tier_bounds [of L st "Currency b"]
    keyword_bonus_bounds [of L st "Title b"] recency_bonus_bounds [of "Since now (CreatedAt b)"]
    platform_bonus_bounds [of L "Platform b"]
  unfolding CalculateUrgency_sum by linarith

text \<open>
  Claim C6.  Under the default payment and scoring configuration, a bounty with the title
  \<^verbatim>\<open>Urgent: Fix Security Bug\<close>, the currency \<^verbatim>\<open>USDC\<close>, a creation time equal to the reading
  of the clock, no tags and a platform without a platform bonus scores at least 160; the
  score is 160 = 50 + 30 + 15 + 25 + 40.
\<close>

theorem CalculateUrgency_urgent_security_fix:
  assumes "Title b = ''Urgent: Fix Security Bug''" and "Currency b = ''USDC''"
    and "CreatedAt b = now" and "Tags b = []"
    and "\<not> Contains (ToUpper L (Platform b)) ''SUPERTEAM''"
    and "\<not> Contains (ToUpper L (Platform b)) ''BOUNTYCASTER''"
    and "\<not> Contains (ToUpper L (Platform b)) ''IMMUNEFI''"
    and "\<not> Contains (ToUpper L (Platform b)) ''HACKEN''"
  shows "160 \<le> CalculateUrgency L core_init now b \<and> CalculateUrgency L core_init now b = 50 + 30 + 15 + 25 + 40"
proof -
  have up: "ToUpper L ''Urgent: Fix Security Bug'' = ''URGENT: FIX SECURITY BUG''"
    by (simp add: ToUpper_def isASCII_def ascii_upper_def)
  have cur: "ToUpper L ''USDC'' = ''USDC''"
    by (simp add: ToUpper_def isASCII_def ascii_upper_def)
  have tier: "payment_tier L core_init ''USDC'' = 50"
    by (simp add: payment_tier_def containsCurrency_def core_init_def defaultPaymentConfig_def cur
        Let_def ReplaceAll_def)
  have kw: "keyword_bonus L core_init ''Urgent: Fix Security Bug'' = 70"
    by (simp add: keyword_bonus_def up core_init_def defaultScoringConfig_def containsAny_def)
  have rec: "recency_bonus (Since now now) = 40"
    by (simp add: recency_bonus_def Since_def Hour_def)
  have plat: "platform_bonus L (Platform b) = 0"
    using assms by (simp add: platform_bonus_def)
  show ?thesis
    by (simp add: CalculateUrgency_sum assms tier kw rec plat tags_total_def)
qed

theorem CalculateUrgency_urgent_security_fix_witness:
  "Title example_bounty = ''Urgent: Fix Security Bug'' \<and> Currency example_bounty = ''USDC''
   \<and> Tags example_bounty = [] \<and> ToUpper go_stdlib (Platform example_bounty) = ''GITHUB''
   \<and> CalculateUrgency go_stdlib core_init (CreatedAt example_bounty) example_bounty = 160"
proof -
  have p: "ToUpper go_stdlib (Platform example_bounty) = ''GITHUB''"
    by code_simp
  have f: "Title example_bounty = ''Urgent: Fix Security Bug''" "Currency example_bounty = ''USDC''"
    "CreatedAt example_bounty = CreatedAt example_bounty" "Tags example_bounty = []"
    by (simp_all add: example_bounty_def)
  have n: "\<not> Contains ''GITHUB'' ''SUPERTEAM''" "\<not> Contains ''GITHUB'' ''BOUNTYCASTER''"
    "\<not> Contains ''GITHUB'' ''IMMUNEFI''" "\<not> Contains ''GITHUB'' ''HACKEN''"
    by simp_all
  from CalculateUrgency_urgent_security_fix [of example_bounty "CreatedAt example_bounty" go_stdlib,
      OF f n [folded p]] f p
  show ?thesis by simp
qed

text \<open>
  Claim C7.  Two bounties that differ in the currency only, scored at the same reading of
  the clock under the same configuration: when the currency of the first matches the
  crypto tier, and the currency of the second matches the fiat tier and neither the crypto
  tier nor the p2p tier, the first does not score below the second.
\<close>

theorem CalculateUrgency_crypto_not_below_fiat:
  assumes "containsCurrency L (Currency b) (CryptoCurrencies (paymentConfig st))"
    and "\<not> containsCurrency L c (CryptoCurrencies (paymentConfig st))"
    and "\<not> containsCurrency L c (P2PMethods (paymentConfig st))"
    and "containsCurrency L c (FiatMethods (paymentConfig st))"
  shows "CalculateUrgency L st now (b\<lparr>Currency := c\<rparr>) \<le> CalculateUrgency L st now b"
  using assms by (simp add: CalculateUrgency_sum payment_tier_def)

theorem CalculateUrgency_crypto_not_below_fiat_witness:
  "containsCurrency go_stdlib (Currency example_bounty) (CryptoCurrencies (paymentConfig core_init))
   \<and> \<not> containsCurrency go_stdlib ''PayPal'' (CryptoCurrencies (paymentConfig core_init))
   \<and> \<not> containsCurrency go_stdlib ''PayPal'' (P2PMethods (paymentConfig core_init))
   \<and> containsCurrency go_stdlib ''PayPal'' (FiatMethods (paymentConfig core_init))
   \<and> CalculateUrgency go_stdlib core_init 1700000000000000000 (example_bounty\<lparr>Currency := ''PayPal''\<rparr>)
       \<le> CalculateUrgency go_stdlib core_init 1700000000000000000 example_bounty"
proof -
  have h1: "containsCurrency go_stdlib (Currency example_bounty) (CryptoCurrencies (paymentConfig core_init))"
    by code_simp
  have h2: "\<not> containsCurrency go_stdlib ''PayPal'' (CryptoCurrencies (paymentConfig core_init))"
    by code_simp
  have h3: "\<not> containsCurrency go_stdlib ''PayPal'' (P2PMethods (paymentConfig core_init))"
    by code_simp
  have h4: "containsCurrency go_stdlib ''PayPal'' (FiatMethods (paymentConfig core_init))"
    by code_simp
  from CalculateUrgency_crypto_not_below_fiat [OF h1 h2 h3 h4, of 1700000000000000000] h1 h2 h3 h4
  show ?thesis by simp
qed

lemma removeOverlap_disjoint: "set (removeOverlap base blacklist) \<inter> set blacklist = {}"
  by (auto simp: removeOverlap_def)

text \<open>
  Claim C9.  In the scoring configuration of package core, both as initialised and after
  every call of \<^const>\<open>SetScoringConfig\<close>, no dev-task keyword is an automation keyword and
  no security keyword is an audit keyword.
\<close>

theorem scoring_keyword_lists_disjoint:
  "set (DevTaskKeywords (scoringConfig core_init)) \<inter> set (AutomationKeywords (scoringConfig core_init)) = {}
   \<and> set (SecurityKeywords (scoringConfig core_init)) \<inter> set (AuditKeywords (scoringConfig core_init)) = {}
   \<and> set (DevTaskKeywords (scoringConfig (SetScoringConfig L cfg st)))
        \<inter> set (AutomationKeywords (scoringConfig (SetScoringConfig L cfg st))) = {}
   \<and> set (SecurityKeywords (scoringConfig (SetScoringConfig L cfg st)))
        \<inter> set (AuditKeywords (scoringConfig (SetScoringConfig L cfg st))) = {}"
proof -
  have "set (DevTaskKeywords (scoringConfig core_init)) \<inter> set (AutomationKeywords (scoringConfig core_init)) = {}"
    by (simp add: core_init_def defaultScoringConfig_def)
  moreover have "set (SecurityKeywords (scoringConfig core_init)) \<inter> set (AuditKeywords (scoringConfig core_init)) = {}"
    by (simp add: core_init_def defaultScoringConfig_def)
  moreover have "set (DevTaskKeywords (normalizeScoringConfig L cfg))
        \<inter> set (AutomationKeywords (normalizeScoringConfig L cfg)) = {}"
    by (simp add: normalizeScoringConfig_def Let_def removeOverlap_disjoint)
  moreover have "set (SecurityKeywords (normalizeScoringConfig L cfg))
        \<inter> set (AuditKeywords (normalizeScoringConfig L cfg)) = {}"
    by (simp add: normalizeScoringConfig_def Let_def removeOverlap_disjoint)
  ultimately show ?thesis
    by (simp add: SetScoringConfig_def)
qed

theorem scoring_keyword_lists_disjoint_witness:
  "DevTaskKeywords (scoringConfig (SetScoringConfig go_stdlib example_overlap_config core_init)) = [''FIX'']
   \<and> AutomationKeywords (scoringConfig (SetScoringConfig go_stdlib example_overlap_config core_init)) = [''SCRIPT'', ''BOT'']
   \<and> SecurityKeywords (scoringConfig (SetScoringConfig go_stdlib example_overlap_config core_init)) = [''HACK'']
   \<and> AuditKeywords (scoringConfig (SetScoringConfig go_stdlib example_overlap_config core_init)) = [''AUDIT'']
   \<and> set [''FIX''] \<inter> set [''SCRIPT'', ''BOT''] = {} \<and> set [''HACK''] \<inter> set [''AUDIT''] = {}"
proof -
  have d: "DevTaskKeywords (scoringConfig (SetScoringConfig go_stdlib example_overlap_config core_init)) = [''FIX'']"
    by code_simp
  have a: "AutomationKeywords (scoringConfig (SetScoringConfig go_stdlib example_overlap_config core_init)) = [''SCRIPT'', ''BOT'']"
    by code_simp
  have s: "SecurityKeywords (scoringConfig (SetScoringConfig go_stdlib example_overlap_config core_init)) = [''HACK'']"
    by code_simp
  have u: "AuditKeywords (scoringConfig (SetScoringConfig go_stdlib example_overlap_config core_init)) = [''AUDIT'']"
    by code_simp
  from scoring_keyword_lists_disjoint [of go_stdlib example_overlap_config core_init] d a s u
  show ?thesis by simp
qed

section \<open>Properties of the funnel\<close>

lemma process_bounty_invalid:
  "\<not> ValidateURL L (ALLOW_LOCAL_URLS w) (NormalizeURL (URL bounty)) \<Longrightarrow>
   process_bounty L st cfg w db bounty = (db, [WarnInvalidURL (NormalizeURL (URL bounty))])"
  by (simp add: process_bounty_def Let_def)

lemma ValidateURL_scheme:
  "url_ParseRequestURI L u = Some parsed \<Longrightarrow> Scheme parsed \<noteq> ''http'' \<Longrightarrow> Scheme parsed \<noteq> ''https''
   \<Longrightarrow> \<not> ValidateURL L allow u"
  by (simp add: ValidateURL_def)

text \<open>
  What reaches \<^const>\<open>Save\<close> has passed every step before it: its URL is the canonical one,
  is valid and has no row yet, and its free-text fields are results of \<^const>\<open>SanitizeString\<close>.
\<close>

lemma saved_fields_sanitized:
  assumes "SaveCalled b \<in> set (snd (process_bounty L st cfg w db bounty))"
  shows "Title b = SanitizeString (Title bounty) \<and> Platform b = SanitizeString (Platform bounty)
         \<and> Reward b = SanitizeString (Reward bounty) \<and> Currency b = SanitizeString (Currency bounty)
         \<and> Description b = SanitizeString (Description bounty) \<and> URL b = NormalizeURL (URL bounty)
         \<and> ValidateURL L (ALLOW_LOCAL_URLS w) (URL b) \<and> db (URL b) = None"
  using assms
  by (auto simp: process_bounty_def Let_def IsNew_def Save_def split: if_splits option.splits)

text \<open>
  Claim C4.  A record whose canonical URL parses with the scheme \<^verbatim>\<open>javascript\<close> is rejected
  at the URL validation: the funnel logs the warning of that step and does nothing else,
  so \<^const>\<open>Save\<close> is not called and the table is as before.
\<close>

theorem javascript_url_never_saved:
  assumes "url_ParseRequestURI L (NormalizeURL (URL bounty)) = Some parsed"
    and "Scheme parsed = ''javascript''"
  shows "process_bounty L st cfg w db bounty = (db, [WarnInvalidURL (NormalizeURL (URL bounty))])
         \<and> \<not> list_ex is_SaveCalled (snd (process_bounty L st cfg w db bounty))"
proof -
  have "\<not> ValidateURL L (ALLOW_LOCAL_URLS w) (NormalizeURL (URL bounty))"
    using assms by (intro ValidateURL_scheme [of L _ parsed]) simp_all
  then have "process_bounty L st cfg w db bounty = (db, [WarnInvalidURL (NormalizeURL (URL bounty))])"
    by (rule process_bounty_invalid)
  then show ?thesis
    by (simp add: is_SaveCalled_def)
qed

theorem javascript_url_never_saved_witness:
  "url_ParseRequestURI go_stdlib (NormalizeURL (URL (example_bounty\<lparr>URL := ''javascript:alert(1)''\<rparr>)))
     = Some \<lparr>Scheme = ''javascript'', Host = []\<rparr>
   \<and> process_bounty go_stdlib core_init example_config example_world Map.empty
        (example_bounty\<lparr>URL := ''javascript:alert(1)''\<rparr>)
     = (Map.empty, [WarnInvalidURL ''javascript:alert(1''])"
proof -
  have n: "NormalizeURL (URL (example_bounty\<lparr>URL := ''javascript:alert(1)''\<rparr>)) = ''javascript:alert(1''"
    by code_simp
  have p: "url_ParseRequestURI go_stdlib (NormalizeURL (URL (example_bounty\<lparr>URL := ''javascript:alert(1)''\<rparr>)))
     = Some \<lparr>Scheme = ''javascript'', Host = []\<rparr>"
    by code_simp
  have s: "Scheme \<lparr>Scheme = ''javascript'', Host = []\<rparr> = ''javascript''"
    by simp
  from javascript_url_never_saved [OF p s, of core_init example_config example_world Map.empty] p n
  show ?thesis by simp
qed

text \<open>
  Under the reference parser every URL that starts with \<^verbatim>\<open>javascript:\<close> either fails to parse
  or parses with the scheme \<^verbatim>\<open>javascript\<close>, so the funnel rejects every record whose
  canonical URL starts so.
\<close>

lemma getScheme_javascript: "getScheme (''javascript:'' @ rest) = Some (''javascript'', rest)"
  by (simp add: getScheme_def isAlpha_def isDigit_def)

lemma go_ParseRequestURI_Scheme:
  "go_ParseRequestURI u = Some parsed \<Longrightarrow> getScheme u = Some (sch, rest) \<Longrightarrow> u \<noteq> ''*''
   \<Longrightarrow> Scheme parsed = map ascii_lower sch"
  unfolding go_ParseRequestURI_def
  by (auto simp: Let_def split: if_splits option.splits)

lemma go_ParseRequestURI_javascript:
  assumes "go_ParseRequestURI (''javascript:'' @ rest) = Some parsed"
  shows "Scheme parsed = ''javascript''"
proof -
  have "Scheme parsed = map ascii_lower ''javascript''"
    using assms getScheme_javascript by (rule go_ParseRequestURI_Scheme) simp
  then show ?thesis
    by (simp add: ascii_lower_def)
qed

lemma javascript_prefix_rejected:
  assumes "NormalizeURL (URL bounty) = ''javascript:'' @ rest"
  shows "process_bounty go_stdlib st cfg w db bounty = (db, [WarnInvalidURL (NormalizeURL (URL bounty))])"
proof (cases "go_ParseRequestURI (''javascript:'' @ rest)")
  case None
  then have "\<not> ValidateURL go_stdlib (ALLOW_LOCAL_URLS w) (NormalizeURL (URL bounty))"
    using assms by (simp add: ValidateURL_def go_stdlib_def)
  then show ?thesis by (rule process_bounty_invalid)
next
  case (Some parsed)
  then have "Scheme parsed = ''javascript''"
    by (rule go_ParseRequestURI_javascript)
  then have "\<not> ValidateURL go_stdlib (ALLOW_LOCAL_URLS w) (NormalizeURL (URL bounty))"
    using assms Some by (intro ValidateURL_scheme [of go_stdlib _ parsed]) (simp_all add: go_stdlib_def)
  then show ?thesis by (rule process_bounty_invalid)
qed




text \<open>
  Claim C8, amended.  The URL validation of the funnel rejects a record whose canonical
  URL parses with a scheme other than \<^verbatim>\<open>http\<close> and \<^verbatim>\<open>https\<close>, whatever the value of the
  override \<^verbatim>\<open>BOUNTYOS_ALLOW_LOCAL_URLS\<close> is.  Nothing is stated about hosts: the code has no
  check of link-local addresses, and its check of loopback hosts is left out here.
\<close>

theorem non_http_scheme_rejected:
  assumes "url_ParseRequestURI L (NormalizeURL (URL bounty)) = Some parsed"
    and "Scheme parsed \<noteq> ''http''" and "Scheme parsed \<noteq> ''https''"
  shows "\<not> ValidateURL L (ALLOW_LOCAL_URLS w) (NormalizeURL (URL bounty))
         \<and> process_bounty L st cfg w db bounty = (db, [WarnInvalidURL (NormalizeURL (URL bounty))])"
proof -
  have "\<not> ValidateURL L (ALLOW_LOCAL_URLS w) (NormalizeURL (URL bounty))"
    using assms by (rule ValidateURL_scheme)
  then show ?thesis
    using process_bounty_invalid by blast
qed

theorem non_http_scheme_rejected_witness:
  "url_ParseRequestURI go_stdlib (NormalizeURL (URL (example_bounty\<lparr>URL := ''ftp://files.com''\<rparr>)))
     = Some \<lparr>Scheme = ''ftp'', Host = ''files.com''\<rparr>
   \<and> EqualFold (ALLOW_LOCAL_URLS example_override_world) ''true''
   \<and> process_bounty go_stdlib core_init example_config example_override_world Map.empty
        (example_bounty\<lparr>URL := ''ftp://files.com''\<rparr>)
     = (Map.empty, [WarnInvalidURL ''ftp://files.com''])
   \<and> process_bounty go_stdlib core_init example_config example_world Map.empty
        (example_bounty\<lparr>URL := ''ftp://files.com''\<rparr>)
     = (Map.empty, [WarnInvalidURL ''ftp://files.com''])"
proof -
  have n: "NormalizeURL (URL (example_bounty\<lparr>URL := ''ftp://files.com''\<rparr>)) = ''ftp://files.com''"
    by code_simp
  have p: "url_ParseRequestURI go_stdlib (NormalizeURL (URL (example_bounty\<lparr>URL := ''ftp://files.com''\<rparr>)))
     = Some \<lparr>Scheme = ''ftp'', Host = ''files.com''\<rparr>"
    by code_simp
  have e: "EqualFold (ALLOW_LOCAL_URLS example_override_world) ''true''"
    by code_simp
  have s: "Scheme \<lparr>Scheme = ''ftp'', Host = ''files.com''\<rparr> \<noteq> ''http''"
    "Scheme \<lparr>Scheme = ''ftp'', Host = ''files.com''\<rparr> \<noteq> ''https''"
    by simp_all
  from non_http_scheme_rejected [OF p s, of example_override_world core_init example_config Map.empty]
    non_http_scheme_rejected [OF p s, of example_world core_init example_config Map.empty] p e n
  show ?thesis by simp
qed

text \<open>
  The claim as written promises the rejection of every link-local host.  The address
  169.254.169.254 is link-local; with the override unset the URL below is its own
  canonical form, passes \<^const>\<open>ValidateURL\<close>, and the funnel calls \<^const>\<open>Save\<close> for the record.
\<close>

theorem link_local_counterexample:
  "NormalizeURL (URL example_metadata_bounty) = ''http://169.254.169.254/latest/meta-data/''
   \<and> url_ParseRequestURI go_stdlib ''http://169.254.169.254/latest/meta-data/''
       = Some \<lparr>Scheme = ''http'', Host = ''169.254.169.254''\<rparr>
   \<and> \<not> EqualFold (ALLOW_LOCAL_URLS example_world) ''true''
   \<and> ValidateURL go_stdlib (ALLOW_LOCAL_URLS example_world) ''http://169.254.169.254/latest/meta-data/''
   \<and> list_ex is_SaveCalled
        (snd (process_bounty go_stdlib core_init example_config example_world Map.empty example_metadata_bounty))"
  by code_simp

text \<open>
  The list \<^const>\<open>dangerousDomains\<close> names \<^verbatim>\<open>localhost\<close> and \<^verbatim>\<open>127.0.0.1\<close>, and a host that
  contains one of them is refused while the override is not enabled.  Other loopback hosts
  are not on the list: \<^verbatim>\<open>[::1]\<close> and \<^verbatim>\<open>127.0.0.2\<close> pass the validation.
\<close>

lemma deny_listed_host_rejected:
  assumes "url_ParseRequestURI L u = Some parsed"
    and "\<not> EqualFold allow ''true''"
    and "Contains (ToLower L (Host parsed)) ''localhost'' \<or> Contains (ToLower L (Host parsed)) ''127.0.0.1''"
  shows "\<not> ValidateURL L allow u"
  using assms by (auto simp: ValidateURL_def dangerousDomains_def)

lemma other_loopback_hosts_pass:
  "ValidateURL go_stdlib [] ''http://[::1]:8080/'' \<and> ValidateURL go_stdlib [] ''http://127.0.0.2/''
   \<and> \<not> ValidateURL go_stdlib [] ''http://localhost'' \<and> \<not> ValidateURL go_stdlib [] ''http://127.0.0.1:8080/''"
  by code_simp

section \<open>Properties of the retry executor\<close>

lemma attempts_Cons_Send: "attempts (res, before @ Send i # evs) = attempts (res, before) @ i # attempts (res, evs)"
  by (simp add: attempts_def)

lemma attempts_before:
  "attempts (res, if 0 < i then [Wait d, LogRetrying i] else []) = []"
  by (auto simp: attempts_def)

lemma retry_ok_step:
  assumes "i \<le> maxRetries" and "retried (do i)" and "retry_ok do (Suc i) (res, evs)"
  shows "retry_ok do i (res, (if 0 < i then [Wait d, LogRetrying i] else []) @ Send i # evs)"
proof -
  from assms(3) obtain m where m: "Suc i \<le> m" "m \<le> maxRetries + 1" "attempts (res, evs) = [Suc i..<m]"
    "\<forall>k. Suc i \<le> k \<and> Suc k < m \<longrightarrow> retried (do k)"
    "\<forall>k code. Suc i \<le> k \<and> k < m \<and> do k = Status code \<and> \<not> (code \<ge> 500 \<or> code = 429)
                 \<longrightarrow> fst (res, evs) = Returned code \<and> m = Suc k"
    unfolding retry_ok_def by blast
  have a: "attempts (res, (if 0 < i then [Wait d, LogRetrying i] else []) @ Send i # evs) = [i..<m]"
    using m(1,3) by (simp add: attempts_Cons_Send attempts_before upt_conv_Cons)
  have b: "\<forall>k. i \<le> k \<and> Suc k < m \<longrightarrow> retried (do k)"
    using m(4) assms(2) by (metis Suc_leI le_neq_implies_less)
  have c: "\<forall>k code. i \<le> k \<and> k < m \<and> do k = Status code \<and> \<not> (code \<ge> 500 \<or> code = 429)
                 \<longrightarrow> fst (res, (if 0 < i then [Wait d, LogRetrying i] else []) @ Send i # evs) = Returned code \<and> m = Suc k"
  proof (intro allI impI)
    fix k code
    assume k: "i \<le> k \<and> k < m \<and> do k = Status code \<and> \<not> (code \<ge> 500 \<or> code = 429)"
    then have "k \<noteq> i"
      using assms(2) by (auto simp: retried_def)
    with k have "Suc i \<le> k" by simp
    with k m(5) show "fst (res, (if 0 < i then [Wait d, LogRetrying i] else []) @ Send i # evs) = Returned code \<and> m = Suc k"
      by auto
  qed
  show ?thesis
    unfolding retry_ok_def using m(1,2) a b c by (intro exI [of _ m]) auto
qed

lemma doRequestWithRetry_loop_ok:
  "i \<le> maxRetries + 1 \<Longrightarrow> retry_ok do i (doRequestWithRetry_loop baseBackoff do cancelled i lastErr)"
proof (induction baseBackoff do cancelled i lastErr rule: doRequestWithRetry_loop.induct)
  case (1 baseBackoff do cancelled i lastErr)
  show ?case
  proof (cases "i \<le> maxRetries")
    case False
    with "1.prems" have "i = maxRetries + 1" by simp
    then have "retry_ok do i (GaveUp lastErr, [])"
      unfolding retry_ok_def using \<open>i = maxRetries + 1\<close> by (intro exI [of _ i]) (auto simp: attempts_def)
    then show ?thesis
      using False by (subst doRequestWithRetry_loop.simps) simp
  next
    case le: True
    show ?thesis
    proof (cases "0 < i \<and> cancelled i")
      case True
      then show ?thesis
        using le by (subst doRequestWithRetry_loop.simps) (auto simp: retry_ok_def attempts_def)
    next
      case nc: False
      show ?thesis
      proof (cases "do i")
        case Failed
        obtain res evs where r: "doRequestWithRetry_loop baseBackoff do cancelled (i + 1) (Some Failed) = (res, evs)"
          by (cases "doRequestWithRetry_loop baseBackoff do cancelled (i + 1) (Some Failed)")
        have "retry_ok do (Suc i) (res, evs)"
          using "1.IH"(1) [OF le nc refl Failed] le r by simp
        then have "retry_ok do i (res, (if 0 < i then [Wait (2 ^ (i - 1) * baseBackoff), LogRetrying i] else []) @ Send i # evs)"
          using le Failed by (intro retry_ok_step) (simp_all add: retried_def)
        then show ?thesis
          using le nc Failed r by (subst doRequestWithRetry_loop.simps) (auto simp: Let_def)
      next
        case (Status code)
        show ?thesis
        proof (cases "code \<ge> 500 \<or> code = 429")
          case True
          obtain res evs where r: "doRequestWithRetry_loop baseBackoff do cancelled (i + 1) (Some (Status code)) = (res, evs)"
            by (cases "doRequestWithRetry_loop baseBackoff do cancelled (i + 1) (Some (Status code))")
          have "retry_ok do (Suc i) (res, evs)"
            using "1.IH"(2) [OF le nc refl Status True] le r by simp
          then have "retry_ok do i (res, (if 0 < i then [Wait (2 ^ (i - 1) * baseBackoff), LogRetrying i] else []) @ Send i # evs)"
            using le Status True by (intro retry_ok_step) (simp_all add: retried_def)
          then show ?thesis
            using le nc Status True r by (subst doRequestWithRetry_loop.simps) (auto simp: Let_def)
        next
          case False
          have "retry_ok do i (Returned code, (if 0 < i then [Wait (2 ^ (i - 1) * baseBackoff), LogRetrying i] else []) @ [Send i])"
            unfolding retry_ok_def using le Status False
            by (intro exI [of _ "Suc i"]) (auto simp: attempts_def less_Suc_eq_le dest: le_antisym)
          then show ?thesis
            using le nc Status False by (subst doRequestWithRetry_loop.simps) (auto simp: Let_def)
        qed
      qed
    qed
  qed
qed

text \<open>
  Claim C2, amended.  For every request wrapped by the retry executor, a further attempt is
  made only after a response with a status of at least 500 or equal to 429, or after an
  error without a response; at most 4 attempts are made in total, the first one and 3
  retries; and a response with any other status is returned at once, without a further
  attempt.
\<close>

theorem doRequestWithRetry_attempts:
  "length (attempts (doRequestWithRetry baseBackoff do cancelled)) \<le> maxRetries + 1
   \<and> maxRetries + 1 = 4
   \<and> attempts (doRequestWithRetry baseBackoff do cancelled)
       = [0..<length (attempts (doRequestWithRetry baseBackoff do cancelled))]
   \<and> (\<forall>k. Suc k < length (attempts (doRequestWithRetry baseBackoff do cancelled)) \<longrightarrow>
          do k = Failed \<or> (\<exists>code. do k = Status code \<and> (code \<ge> 500 \<or> code = 429)))
   \<and> (\<forall>k code. k < length (attempts (doRequestWithRetry baseBackoff do cancelled))
          \<and> do k = Status code \<and> \<not> (code \<ge> 500 \<or> code = 429) \<longrightarrow>
          fst (doRequestWithRetry baseBackoff do cancelled) = Returned code
          \<and> length (attempts (doRequestWithRetry baseBackoff do cancelled)) = Suc k)"
proof -
  have "retry_ok do 0 (doRequestWithRetry baseBackoff do cancelled)"
    unfolding doRequestWithRetry_def by (rule doRequestWithRetry_loop_ok) simp
  then obtain m where m: "m \<le> maxRetries + 1" "attempts (doRequestWithRetry baseBackoff do cancelled) = [0..<m]"
    "\<forall>k. Suc k < m \<longrightarrow> retried (do k)"
    "\<forall>k code. k < m \<and> do k = Status code \<and> \<not> (code \<ge> 500 \<or> code = 429)
        \<longrightarrow> fst (doRequestWithRetry baseBackoff do cancelled) = Returned code \<and> m = Suc k"
    unfolding retry_ok_def by auto
  have len: "length (attempts (doRequestWithRetry baseBackoff do cancelled)) = m"
    using m(2) by simp
  have r: "\<And>k. retried (do k) \<Longrightarrow> do k = Failed \<or> (\<exists>code. do k = Status code \<and> (code \<ge> 500 \<or> code = 429))"
    by (auto simp: retried_def split: http_result.splits)
  have c1: "\<forall>k. Suc k < m \<longrightarrow> do k = Failed \<or> (\<exists>code. do k = Status code \<and> (code \<ge> 500 \<or> code = 429))"
    using m(3) r by blast
  have c2: "\<forall>k code. k < m \<and> do k = Status code \<and> \<not> (code \<ge> 500 \<or> code = 429) \<longrightarrow>
          fst (doRequestWithRetry baseBackoff do cancelled) = Returned code \<and> m = Suc k"
    using m(4) by blast
  have c3: "maxRetries + 1 = 4"
    by (simp add: maxRetries_def)
  show ?thesis
    unfolding len by (rule conjI [OF m(1) conjI [OF c3 conjI [OF m(2) conjI [OF c1 c2]]]])
qed

theorem doRequestWithRetry_attempts_witness:
  "attempts (doRequestWithRetry 1000000000 drops_first never_cancelled) = [0, 1]
   \<and> drops_first 0 = Failed \<and> drops_first 1 = Status 200
   \<and> fst (doRequestWithRetry 1000000000 drops_first never_cancelled) = Returned 200"
proof -
  have a: "attempts (doRequestWithRetry 1000000000 drops_first never_cancelled) = [0, 1]"
    by code_simp
  have d: "drops_first 0 = Failed" "drops_first 1 = Status 200" "\<not> ((200::int) \<ge> 500 \<or> (200::int) = 429)"
    by (simp_all add: drops_first_def)
  have "\<forall>k code. k < length (attempts (doRequestWithRetry 1000000000 drops_first never_cancelled))
          \<and> drops_first k = Status code \<and> \<not> (code \<ge> 500 \<or> code = 429) \<longrightarrow>
          fst (doRequestWithRetry 1000000000 drops_first never_cancelled) = Returned code"
    using doRequestWithRetry_attempts [of 1000000000 drops_first never_cancelled] by blast
  then have "1 < length (attempts (doRequestWithRetry 1000000000 drops_first never_cancelled))
          \<and> drops_first 1 = Status 200 \<and> \<not> ((200::int) \<ge> 500 \<or> (200::int) = 429) \<longrightarrow>
          fst (doRequestWithRetry 1000000000 drops_first never_cancelled) = Returned 200"
    by blast
  with a d show ?thesis by simp
qed

text \<open>
  The claim as written allows 3 attempts and no retry after an error without a response.
  A server that answers 500 three times is asked a fourth time, and the fourth answer is
  returned; a request that fails without a response is sent again.
\<close>

theorem four_attempts_counterexample:
  "attempts (doRequestWithRetry 1000000000 fails_three_times never_cancelled) = [0, 1, 2, 3]
   \<and> fst (doRequestWithRetry 1000000000 fails_three_times never_cancelled) = Returned 200
   \<and> drops_first 0 = Failed
   \<and> attempts (doRequestWithRetry 1000000000 drops_first never_cancelled) = [0, 1]
   \<and> fst (doRequestWithRetry 1000000000 drops_first never_cancelled) = Returned 200"
  by code_simp

end
